theory Spec2Isabelle
  imports Main
begin

section \<open>The modal dialog component\<close>

text \<open>
  The component of \<^verbatim>\<open>src/components/modal/modal-component.ts\<close> is a class with three
  reactive fields. Its methods mutate the field \<open>open\<close> and dispatch \<^verbatim>\<open>CustomEvent\<close>s
  on the element. The embedding passes the state explicitly: a \<open>world\<close> is the component
  together with the events dispatched on it so far, oldest first.
\<close>

record modal =
  "open" :: bool
  message :: string
  type :: string

text \<open>
  A dispatched \<^verbatim>\<open>CustomEvent\<close>: its name, its \<open>detail\<close>, and its \<open>target\<close>, the component as
  a listener finds it while the event is delivered (dispatch is synchronous, so this is
  the component at the moment of the \<^verbatim>\<open>dispatchEvent\<close> call).
\<close>

record custom_event =
  name :: string
  detail :: bool
  target :: modal

type_synonym world = "modal \<times> custom_event list"

text \<open>The field initialisers of the class.\<close>

definition initial :: modal where
  "initial = \<lparr>open = False, message = '''', type = ''''\<rparr>"

definition dispatchEvent :: "string \<Rightarrow> bool \<Rightarrow> world \<Rightarrow> world" where
  "dispatchEvent n d w = (fst w, snd w @ [\<lparr>name = n, detail = d, target = fst w\<rparr>])"

text \<open>\<^verbatim>\<open>close\<close>: first the field write, then the event with detail \<open>false\<close>.\<close>

definition close :: "world \<Rightarrow> world" where
  "close w = dispatchEvent ''confirm'' False ((fst w)\<lparr>open := False\<rparr>, snd w)"

text \<open>\<^verbatim>\<open>handleConfirm\<close>: the event with detail \<open>true\<close>, then \<^verbatim>\<open>this.close()\<close>.\<close>

definition handleConfirm :: "world \<Rightarrow> world" where
  "handleConfirm w = close (dispatchEvent ''confirm'' True w)"

text \<open>\<^verbatim>\<open>handleCancel\<close>: the event with detail \<open>false\<close>, then \<^verbatim>\<open>this.close()\<close>.\<close>

definition handleCancel :: "world \<Rightarrow> world" where
  "handleCancel w = close (dispatchEvent ''confirm'' False w)"

subsection \<open>Rendering\<close>

text \<open>
  The template of \<^verbatim>\<open>render\<close> as data: the overlay with its click listener, the paragraph
  with the message, and the buttons in document order, each with its class, its part, its
  click listener and its label. A listener is one of the three methods of the class.
\<close>

datatype handler = Close | HandleConfirm | HandleCancel

record button =
  btn_class :: string
  part :: string
  on_click :: handler
  label :: string

record template =
  overlay_on_click :: handler
  p_text :: string
  buttons :: "button list"

text \<open>
  The localisation service is not part of the component: its lookup \<open>t\<close> is a parameter.
  A call returns the label and records the key that was asked for.
\<close>

definition i18n_t :: "(string \<Rightarrow> string) \<Rightarrow> string \<Rightarrow> string list \<Rightarrow> string \<times> string list" where
  "i18n_t t k calls = (t k, calls @ [k])"

text \<open>
  \<^verbatim>\<open>render\<close> returns \<open>None\<close> for \<^verbatim>\<open>null\<close> (nothing is rendered) and the template otherwise,
  together with the keys it looked up, in order.
\<close>

definition render :: "(string \<Rightarrow> string) \<Rightarrow> modal \<Rightarrow> template option \<times> string list" where
  "render t m =
     (if \<not> open m then (None, [])
      else if type m = ''confirm'' then
        (let (ok, c1) = i18n_t t ''modal.buttons.ok'' [];
             (cancel, c2) = i18n_t t ''modal.buttons.cancel'' c1
         in (Some \<lparr>overlay_on_click = Close, p_text = message m,
                   buttons =
                     [\<lparr>btn_class = ''modal-confirm-button'', part = ''modal-confirm-button'',
                       on_click = HandleConfirm, label = ok\<rparr>,
                      \<lparr>btn_class = ''modal-cancel-button'', part = ''modal-cancel-button'',
                       on_click = HandleCancel, label = cancel\<rparr>]\<rparr>, c2))
      else
        (let (ok, c1) = i18n_t t ''modal.buttons.ok'' []
         in (Some \<lparr>overlay_on_click = Close, p_text = message m,
                   buttons =
                     [\<lparr>btn_class = ''modal-confirm-button'', part = ''modal-confirm-button'',
                       on_click = Close, label = ok\<rparr>]\<rparr>, c1)))"

subsection \<open>Clicks\<close>

text \<open>
  The three clickable regions of the rendered dialog. The ok-control is the button with
  part \<^verbatim>\<open>modal-confirm-button\<close>, the cancel-control the button with part
  \<^verbatim>\<open>modal-cancel-button\<close>. A click reaches the listener that the current rendering
  registered on the region; a region that is not rendered has none.
\<close>

datatype region = Overlay | OkControl | CancelControl

definition listener :: "template \<Rightarrow> region \<Rightarrow> handler option" where
  "listener v r =
     (case r of
        Overlay \<Rightarrow> Some (overlay_on_click v)
      | OkControl \<Rightarrow>
          map_option on_click (find (\<lambda>b. part b = ''modal-confirm-button'') (buttons v))
      | CancelControl \<Rightarrow>
          map_option on_click (find (\<lambda>b. part b = ''modal-cancel-button'') (buttons v)))"

definition rendered_listener :: "(string \<Rightarrow> string) \<Rightarrow> modal \<Rightarrow> region \<Rightarrow> handler option" where
  "rendered_listener t m r =
     (case fst (render t m) of None \<Rightarrow> None | Some v \<Rightarrow> listener v r)"

fun run :: "handler \<Rightarrow> world \<Rightarrow> world" where
  "run Close w = close w"
| "run HandleConfirm w = handleConfirm w"
| "run HandleCancel w = handleCancel w"

text \<open>
  One click of the user: the listener of the region runs to completion; the dialog is
  rendered anew from the fields before the next click arrives.
\<close>

definition click :: "(string \<Rightarrow> string) \<Rightarrow> region \<Rightarrow> world \<Rightarrow> world" where
  "click t r w =
     (case rendered_listener t (fst w) r of None \<Rightarrow> w | Some h \<Rightarrow> run h w)"

fun clicks :: "(string \<Rightarrow> string) \<Rightarrow> region list \<Rightarrow> world \<Rightarrow> world" where
  "clicks t [] w = w"
| "clicks t (r # rs) w = clicks t rs (click t r w)"

text \<open>The host assigns the field \<open>open\<close>; the assignment dispatches nothing.\<close>

definition set_open :: "bool \<Rightarrow> world \<Rightarrow> world" where
  "set_open b w = ((fst w)\<lparr>open := b\<rparr>, snd w)"

text \<open>The decisions the host has been notified of, oldest first.\<close>

definition notifications :: "world \<Rightarrow> bool list" where
  "notifications w = map detail (snd w)"

text \<open>
  What the host can see of the field \<open>open\<close> around one click that starts from the
  component \<open>m0\<close> with no event dispatched yet and ends in the world \<open>w\<close>: the field before
  the click, the field during each delivery, and the field after the click, each paired
  with the number of notifications received up to and including that moment.
\<close>

definition host_view :: "modal \<Rightarrow> world \<Rightarrow> (bool \<times> nat) list" where
  "host_view m0 w =
     (open m0, 0)
     # map (\<lambda>(i, e). (open (target e), Suc i)) (enumerate 0 (snd w))
     @ [(open (fst w), length (snd w))]"

section \<open>Basic facts\<close>

lemma close_eq:
  "close (m, es) = (m\<lparr>open := False\<rparr>,
     es @ [\<lparr>name = ''confirm'', detail = False, target = m\<lparr>open := False\<rparr>\<rparr>])"
  by (simp add: close_def dispatchEvent_def)

lemma handleConfirm_eq:
  "handleConfirm (m, es) = (m\<lparr>open := False\<rparr>,
     es @ [\<lparr>name = ''confirm'', detail = True, target = m\<rparr>,
           \<lparr>name = ''confirm'', detail = False, target = m\<lparr>open := False\<rparr>\<rparr>])"
  by (simp add: handleConfirm_def close_def dispatchEvent_def)

lemma handleCancel_eq:
  "handleCancel (m, es) = (m\<lparr>open := False\<rparr>,
     es @ [\<lparr>name = ''confirm'', detail = False, target = m\<rparr>,
           \<lparr>name = ''confirm'', detail = False, target = m\<lparr>open := False\<rparr>\<rparr>])"
  by (simp add: handleCancel_def close_def dispatchEvent_def)

lemma initial_not_rendered: "render t initial = (None, [])"
  by (simp add: render_def initial_def)

lemma rendered_listener_closed: "\<not> open m \<Longrightarrow> rendered_listener t m r = None"
  by (simp add: rendered_listener_def render_def)

lemma rendered_listener_confirm:
  "open m \<Longrightarrow> type m = ''confirm'' \<Longrightarrow>
   rendered_listener t m r =
     Some (case r of Overlay \<Rightarrow> Close | OkControl \<Rightarrow> HandleConfirm | CancelControl \<Rightarrow> HandleCancel)"
  by (cases r) (simp_all add: rendered_listener_def render_def i18n_t_def listener_def)

lemma rendered_listener_alert:
  "open m \<Longrightarrow> type m \<noteq> ''confirm'' \<Longrightarrow>
   rendered_listener t m r =
     (case r of Overlay \<Rightarrow> Some Close | OkControl \<Rightarrow> Some Close | CancelControl \<Rightarrow> None)"
  by (cases r) (simp_all add: rendered_listener_def render_def i18n_t_def listener_def)

lemma click_closed: "\<not> open (fst w) \<Longrightarrow> click t r w = w"
  by (simp add: click_def rendered_listener_closed)

lemma clicks_closed: "\<not> open (fst w) \<Longrightarrow> clicks t rs w = w"
  by (induction rs) (simp_all add: click_closed)

lemma run_fst: "fst (run h w) = (fst w)\<lparr>open := False\<rparr>"
  by (cases h; cases w) (simp_all add: close_eq handleConfirm_eq handleCancel_eq)

lemma click_run: "rendered_listener t m r = Some h \<Longrightarrow> click t r (m, es) = run h (m, es)"
  by (simp add: click_def)

lemma rendered_listener_open: "rendered_listener t m r = Some h \<Longrightarrow> open m"
  by (cases "open m") (simp_all add: rendered_listener_closed)

text \<open>
  The decisions one click adds, by the listener it reaches. \<^verbatim>\<open>handleConfirm\<close> and
  \<^verbatim>\<open>handleCancel\<close> dispatch an event of their own and then call \<^verbatim>\<open>close\<close>, which
  dispatches another one.
\<close>

lemma click_notifications:
  "rendered_listener t m r = Some h \<Longrightarrow>
   notifications (click t r (m, es)) =
     notifications (m, es)
     @ (case h of Close \<Rightarrow> [False] | HandleConfirm \<Rightarrow> [True, False]
        | HandleCancel \<Rightarrow> [False, False])"
  by (cases h)
     (simp_all add: click_run notifications_def close_eq handleConfirm_eq handleCancel_eq)

section \<open>The claims\<close>

subsection \<open>Number of notifications per closing\<close>

text \<open>
  C1 says that every closing input emits exactly one notification. The code does so for
  the listener \<^verbatim>\<open>close\<close> (overlay, and the single button of the alert layout), but not
  for the two buttons of the confirm layout: in a dialog opened with type
  \<^verbatim>\<open>confirm\<close>, a click on the ok-control and a click on the cancel-control each emit
  two notifications.
\<close>

theorem confirm_click_notifies_twice:
  "length (notifications (click (\<lambda>k. k) OkControl
      (\<lparr>open = True, message = ''Delete item?'', type = ''confirm''\<rparr>, []))) = 2
   \<and> length (notifications (click (\<lambda>k. k) CancelControl
      (\<lparr>open = True, message = ''Delete item?'', type = ''confirm''\<rparr>, []))) = 2"
  by (simp add: notifications_def click_def rendered_listener_confirm
        handleConfirm_eq handleCancel_eq)

subsection \<open>Decisions in confirm mode\<close>

text \<open>
  C2 says that in confirm mode the ok-control yields the decision \<open>true\<close>, the
  cancel-control and the overlay the decision \<open>false\<close>. In the code a click on the
  ok-control notifies the host of \<open>true\<close> and then of \<open>false\<close>: the last decision the host
  receives for an ok click is \<open>false\<close>. The cancel-control yields \<open>false\<close> twice and the
  overlay \<open>false\<close> once.
\<close>

theorem ok_click_decisions:
  "notifications (click (\<lambda>k. k) OkControl
      (\<lparr>open = True, message = ''Delete item?'', type = ''confirm''\<rparr>, [])) = [True, False]
   \<and> notifications (click (\<lambda>k. k) CancelControl
      (\<lparr>open = True, message = ''Delete item?'', type = ''confirm''\<rparr>, [])) = [False, False]
   \<and> notifications (click (\<lambda>k. k) Overlay
      (\<lparr>open = True, message = ''Delete item?'', type = ''confirm''\<rparr>, [])) = [False]"
  by (simp add: notifications_def click_def rendered_listener_confirm
        close_eq handleConfirm_eq handleCancel_eq)

subsection \<open>Notification and visibility\<close>

text \<open>
  C3: for every click that reaches a listener of the rendered dialog, the step that sets
  \<open>open\<close> to \<open>False\<close> is the step that delivers the notification (the click dispatches at
  least one event before it returns), and the host never sees \<open>open = False\<close> before it
  has received a notification: at every moment at which the host can look at the field
  (before the click, during a delivery, after the click) the field is \<open>True\<close> or a
  notification has been received. In \<^verbatim>\<open>close\<close> the field is written before the event is
  dispatched, so the listener of that event already finds \<open>open = False\<close>: it sees the new
  value while it receives the notification, not before.
\<close>

theorem notification_with_hiding:
  assumes "rendered_listener t m r = Some h"
  shows "\<not> open (fst (click t r (m, []))) \<and> snd (click t r (m, [])) \<noteq> []
         \<and> list_all (\<lambda>(vis, n). vis \<or> 0 < n) (host_view m (click t r (m, [])))"
  using assms rendered_listener_open [OF assms]
  by (cases h) (simp_all add: click_run host_view_def close_eq handleConfirm_eq handleCancel_eq)

theorem notification_with_hiding_witness:
  "rendered_listener (\<lambda>k. k) \<lparr>open = True, message = ''Saved.'', type = ''alert''\<rparr> Overlay
     = Some Close
   \<and> \<not> open (fst (click (\<lambda>k. k) Overlay
          (\<lparr>open = True, message = ''Saved.'', type = ''alert''\<rparr>, [])))
   \<and> snd (click (\<lambda>k. k) Overlay
          (\<lparr>open = True, message = ''Saved.'', type = ''alert''\<rparr>, [])) \<noteq> []
   \<and> list_all (\<lambda>(vis, n). vis \<or> 0 < n)
        (host_view \<lparr>open = True, message = ''Saved.'', type = ''alert''\<rparr>
           (click (\<lambda>k. k) Overlay
              (\<lparr>open = True, message = ''Saved.'', type = ''alert''\<rparr>, [])))"
proof -
  have h: "rendered_listener (\<lambda>k. k) \<lparr>open = True, message = ''Saved.'', type = ''alert''\<rparr>
             Overlay = Some Close"
    by (simp add: rendered_listener_alert)
  show ?thesis using h notification_with_hiding [OF h] by simp
qed

subsection \<open>Closed after a closing click\<close>

text \<open>
  C4: after a click that reaches a listener of the rendered dialog, \<open>open\<close> is \<open>False\<close>,
  nothing is rendered, and any further clicks change neither the component nor the events
  dispatched, so no further notification is emitted. Once the host sets \<open>open\<close> to \<open>True\<close>
  again, the same region has its listener again.
\<close>

theorem closed_after_click:
  assumes "rendered_listener t m r = Some h"
  shows "\<not> open (fst (click t r (m, es)))
         \<and> fst (render t (fst (click t r (m, es)))) = None
         \<and> clicks t rs (click t r (m, es)) = click t r (m, es)
         \<and> rendered_listener t (fst (set_open True (click t r (m, es)))) r = Some h"
proof -
  have c: "click t r (m, es) = run h (m, es)" using assms by (rule click_run)
  have o: "open m" using assms by (rule rendered_listener_open)
  have f: "fst (click t r (m, es)) = m\<lparr>open := False\<rparr>" by (simp add: c run_fst)
  have 1: "\<not> open (fst (click t r (m, es)))" by (simp add: f)
  have 2: "fst (render t (fst (click t r (m, es)))) = None" by (simp add: f render_def)
  have 3: "clicks t rs (click t r (m, es)) = click t r (m, es)" using 1 by (rule clicks_closed)
  have "m\<lparr>open := True\<rparr> = m" using o by simp
  then have 4: "rendered_listener t (fst (set_open True (click t r (m, es)))) r = Some h"
    using assms by (simp add: set_open_def f)
  show ?thesis using 1 2 3 4 by blast
qed

theorem closed_after_click_witness:
  "rendered_listener (\<lambda>k. k) \<lparr>open = True, message = ''Delete item?'', type = ''confirm''\<rparr>
     CancelControl = Some HandleCancel
   \<and> \<not> open (fst (click (\<lambda>k. k) CancelControl
          (\<lparr>open = True, message = ''Delete item?'', type = ''confirm''\<rparr>, [])))
   \<and> clicks (\<lambda>k. k) [CancelControl, OkControl, Overlay]
        (click (\<lambda>k. k) CancelControl
          (\<lparr>open = True, message = ''Delete item?'', type = ''confirm''\<rparr>, []))
      = click (\<lambda>k. k) CancelControl
          (\<lparr>open = True, message = ''Delete item?'', type = ''confirm''\<rparr>, [])"
proof -
  have h: "rendered_listener (\<lambda>k. k)
             \<lparr>open = True, message = ''Delete item?'', type = ''confirm''\<rparr> CancelControl
           = Some HandleCancel"
    by (simp add: rendered_listener_confirm)
  show ?thesis
    using h closed_after_click [OF h, of "[]" "[CancelControl, OkControl, Overlay]"] by simp
qed

subsection \<open>Decisions in alert mode\<close>

text \<open>
  C5: when the dialog is open and its type is anything other than \<^verbatim>\<open>confirm\<close>, a click
  on the overlay or on the single ok-control adds exactly one notification, with the
  decision \<open>false\<close>.
\<close>

theorem alert_click_false:
  assumes "open m" and "type m \<noteq> ''confirm''" and "r = Overlay \<or> r = OkControl"
  shows "notifications (click t r (m, es)) = notifications (m, es) @ [False]"
  using assms by (auto simp: notifications_def click_def rendered_listener_alert close_eq)

theorem alert_click_false_witness:
  "open \<lparr>open = True, message = ''Saved.'', type = ''alert''\<rparr>
   \<and> type \<lparr>open = True, message = ''Saved.'', type = ''alert''\<rparr> \<noteq> ''confirm''
   \<and> notifications (click (\<lambda>k. k) OkControl
        (\<lparr>open = True, message = ''Saved.'', type = ''alert''\<rparr>, [])) = [False]"
  using alert_click_false
    [of "\<lparr>open = True, message = ''Saved.'', type = ''alert''\<rparr>" OkControl "\<lambda>k. k" "[]"]
  by (simp add: notifications_def)

subsection \<open>Fallback to the alert layout\<close>

text \<open>
  C6: for every type other than \<^verbatim>\<open>confirm\<close>, the empty string included, an open dialog
  renders the alert layout: the overlay, the message, and one button, the ok-control with
  the listener \<^verbatim>\<open>close\<close>; there is no cancel-control.
\<close>

theorem unrecognised_type_alert_layout:
  assumes "open m" and "type m \<noteq> ''confirm''"
  shows "fst (render t m) =
           Some \<lparr>overlay_on_click = Close, p_text = message m,
                 buttons = [\<lparr>btn_class = ''modal-confirm-button'',
                             part = ''modal-confirm-button'',
                             on_click = Close, label = t ''modal.buttons.ok''\<rparr>]\<rparr>
         \<and> rendered_listener t m CancelControl = None"
  using assms by (simp add: rendered_listener_alert) (simp add: render_def i18n_t_def)

theorem unrecognised_type_alert_layout_witness:
  "open \<lparr>open = True, message = ''Saved.'', type = ''''\<rparr>
   \<and> type \<lparr>open = True, message = ''Saved.'', type = ''''\<rparr> \<noteq> ''confirm''
   \<and> fst (render (\<lambda>k. k) \<lparr>open = True, message = ''Saved.'', type = ''''\<rparr>) =
           Some \<lparr>overlay_on_click = Close, p_text = ''Saved.'',
                 buttons = [\<lparr>btn_class = ''modal-confirm-button'',
                             part = ''modal-confirm-button'',
                             on_click = Close, label = ''modal.buttons.ok''\<rparr>]\<rparr>
   \<and> rendered_listener (\<lambda>k. k) \<lparr>open = True, message = ''Saved.'', type = ''''\<rparr>
        CancelControl = None"
  using unrecognised_type_alert_layout
    [of "\<lparr>open = True, message = ''Saved.'', type = ''''\<rparr>" "\<lambda>k. k"]
  by simp

subsection \<open>Opening an open dialog\<close>

text \<open>
  C7: when the dialog is already open, the host's assignment of \<open>True\<close> to \<open>open\<close> leaves
  the component and the dispatched events as they are: the rendering, the notifications
  and the effect of the next click are the same as without the assignment.
\<close>

theorem set_open_true_idempotent:
  assumes "open (fst w)"
  shows "set_open True w = w \<and> render t (fst (set_open True w)) = render t (fst w)
         \<and> notifications (set_open True w) = notifications w
         \<and> click t r (set_open True w) = click t r w"
proof -
  have "set_open True w = w" using assms by (cases w) (simp add: set_open_def)
  then show ?thesis by simp
qed

theorem set_open_true_idempotent_witness:
  "open (fst (\<lparr>open = True, message = ''Delete item?'', type = ''confirm''\<rparr>, []))
   \<and> set_open True (\<lparr>open = True, message = ''Delete item?'', type = ''confirm''\<rparr>, [])
       = (\<lparr>open = True, message = ''Delete item?'', type = ''confirm''\<rparr>, [])
   \<and> notifications
       (set_open True (\<lparr>open = True, message = ''Delete item?'', type = ''confirm''\<rparr>, []))
       = []"
  using set_open_true_idempotent
    [of "(\<lparr>open = True, message = ''Delete item?'', type = ''confirm''\<rparr>, [])"
        "\<lambda>k. k" Overlay]
  by (simp add: notifications_def)

subsection \<open>The message\<close>

text \<open>
  C8: the text of the paragraph of an open dialog is the field \<open>message\<close> as the host
  supplied it, whatever the string is.
\<close>

theorem message_displayed_verbatim:
  assumes "open m"
  shows "map_option p_text (fst (render t m)) = Some (message m)"
  using assms by (simp add: render_def i18n_t_def)

theorem message_displayed_verbatim_witness:
  "open \<lparr>open = True, message = ''<b>Saved.</b>  '', type = ''alert''\<rparr>
   \<and> map_option p_text
        (fst (render (\<lambda>k. k) \<lparr>open = True, message = ''<b>Saved.</b>  '', type = ''alert''\<rparr>))
      = Some ''<b>Saved.</b>  ''"
  using message_displayed_verbatim
    [of "\<lparr>open = True, message = ''<b>Saved.</b>  '', type = ''alert''\<rparr>" "\<lambda>k. k"]
  by simp

subsection \<open>The label keys\<close>

text \<open>
  C9: over all components, the keys that \<^verbatim>\<open>render\<close> passes to the label lookup are
  exactly the two keys \<^verbatim>\<open>modal.buttons.ok\<close> and \<^verbatim>\<open>modal.buttons.cancel\<close>.
\<close>

theorem lookup_keys:
  "(\<Union>m. set (snd (render t m))) = {''modal.buttons.ok'', ''modal.buttons.cancel''}"
proof
  show "(\<Union>m. set (snd (render t m))) \<subseteq> {''modal.buttons.ok'', ''modal.buttons.cancel''}"
    by (auto simp: render_def i18n_t_def split: if_splits)
  have "set (snd (render t \<lparr>open = True, message = '''', type = ''confirm''\<rparr>))
          = {''modal.buttons.ok'', ''modal.buttons.cancel''}"
    by (simp add: render_def i18n_t_def)
  then show "{''modal.buttons.ok'', ''modal.buttons.cancel''} \<subseteq> (\<Union>m. set (snd (render t m)))"
    by blast
qed

subsection \<open>Frame of the closing handlers\<close>

text \<open>
  C10: each of \<^verbatim>\<open>close\<close>, \<^verbatim>\<open>handleConfirm\<close> and \<^verbatim>\<open>handleCancel\<close> leaves the component
  as it was except for \<open>open\<close>, which becomes \<open>False\<close>; \<open>message\<close> and \<open>type\<close> are
  unchanged.
\<close>

theorem closing_handlers_frame:
  "fst (close w) = (fst w)\<lparr>open := False\<rparr>
   \<and> fst (handleConfirm w) = (fst w)\<lparr>open := False\<rparr>
   \<and> fst (handleCancel w) = (fst w)\<lparr>open := False\<rparr>
   \<and> message (fst (close w)) = message (fst w) \<and> type (fst (close w)) = type (fst w)
   \<and> message (fst (handleConfirm w)) = message (fst w)
   \<and> type (fst (handleConfirm w)) = type (fst w)
   \<and> message (fst (handleCancel w)) = message (fst w)
   \<and> type (fst (handleCancel w)) = type (fst w)"
  by (cases w) (simp add: close_eq handleConfirm_eq handleCancel_eq)

end
